theory Spec2Isabelle
  imports Main "HOL-Library.Word" "HOL-Library.Multiset"
begin

section \<open>Payee side of a micropayment channel (picopayments/channel/payee.py)\<close>

text \<open>
  The class \<open>Payee\<close> keeps one channel's state in the fields of the object and
  mutates them under a mutex. Every operation is modelled as a function from the
  state before the call to the result and the state after it; a raised exception
  is the \<open>Inl\<close> branch of the result, paired with the state the exception leaves
  behind. Random bytes (\<open>os.urandom(32)\<close>) are an argument of the operation that
  draws them.
\<close>

subsection \<open>Data\<close>

type_synonym byte = "8 word"
type_synonym bytes = "byte list"

text \<open>A commit as the lists \<open>commits_active\<close> and \<open>commits_revoked\<close> hold it:
  the dictionary with the keys \<open>rawtx\<close>, \<open>script\<close> and \<open>revoke_secret\<close>.\<close>

record commit =
  rawtx :: string
  script :: string
  revoke_secret :: string

text \<open>An unspent output as \<open>retrieve_utxos\<close> reports it; the code reads its
  \<open>txid\<close> only.\<close>

record utxo =
  txid :: string

text \<open>The fields of the channel object that payee.py reads or writes.\<close>

record channel =
  payer_wif :: "string option"
  payee_wif :: "string option"
  spend_secret :: "string option"
  deposit_rawtx :: "string option"
  deposit_script_hex :: "string option"
  commits_requested :: "string list"
  commits_active :: "commit list"
  commits_revoked :: "commit list"
  payout_rawtxs :: "string list"

text \<open>
  The exceptions of payee.py: a failed \<open>assert\<close>, \<open>raise ValueError(msg)\<close> with
  the formatted message, and the two ways a helper of \<open>util\<close> is handed something
  it cannot decode (\<open>None\<close> in place of a string, a string that is not hex).
  \<open>InvalidQuantity\<close> is the rejection of a transfer quantity.
\<close>

datatype error =
    AssertionError
  | ValueError string
  | TypeError
  | HexError
  | InvalidQuantity int

text \<open>
  The collaborators payee.py calls and does not define: the hash and key helpers
  of pycoin, the script inspector \<open>picopayments.scripts\<close>, and the blockchain
  adapter \<open>self.control\<close>. They are parameters of the model.
  \<open>bad_signature_count r\<close> stands for
  \<open>pycoin.tx.Tx.from_hex(r).bad_signature_count()\<close>, \<open>script2address\<close> for
  \<open>util.script2address(script, netcode=self.control.netcode)\<close>, \<open>commit_spent\<close>
  for the adapter's answer behind \<open>self._commit_spent(commit)\<close>.
\<close>

record control =
  hash160 :: "bytes \<Rightarrow> bytes"
  wif2pubkey :: "string \<Rightarrow> string"
  bad_signature_count :: "string \<Rightarrow> nat"
  get_deposit_spend_secret_hash :: "bytes \<Rightarrow> string"
  get_deposit_payee_pubkey :: "bytes \<Rightarrow> string"
  get_commit_spend_secret_hash :: "bytes \<Rightarrow> string"
  get_commit_payee_pubkey :: "bytes \<Rightarrow> string"
  get_commit_revoke_secret_hash :: "bytes \<Rightarrow> string"
  get_commit_delay_time :: "bytes \<Rightarrow> int"
  get_quantity :: "string \<Rightarrow> int"
  script2address :: "bytes \<Rightarrow> string"
  commit_spent :: "commit \<Rightarrow> bool"
  can_spend_from_address :: "string \<Rightarrow> bool"
  retrieve_utxos :: "string list \<Rightarrow> utxo list"
  confirms :: "string \<Rightarrow> int"
  gettxid :: "string \<Rightarrow> string"

subsection \<open>Hex encoding (util.b2h, util.h2b, util.hash160hex)\<close>

text \<open>
  Modelled from the spec: the module \<open>picopayments.util\<close> is not among the
  sources. Section 6 lists its key utilities as "one-way-hash, hex encode/decode":
  \<open>b2h\<close> writes each byte as two lower-case hex digits, \<open>h2b\<close> reads pairs of hex
  digits back and fails on anything else, and \<open>hash160hex\<close> is the one-way hash
  of section 4.1 on hex strings: decode, hash, encode.
\<close>

definition hexdigit :: "nat \<Rightarrow> char" where
  "hexdigit n = ''0123456789abcdef'' ! n"

definition hexval :: "char \<Rightarrow> nat option" where
  "hexval c =
     (let n = (of_char c :: nat) in
      if 48 \<le> n \<and> n \<le> 57 then Some (n - 48)
      else if 97 \<le> n \<and> n \<le> 102 then Some (n - 87)
      else if 65 \<le> n \<and> n \<le> 70 then Some (n - 55)
      else None)"

fun b2h :: "bytes \<Rightarrow> string" where
  "b2h [] = []"
| "b2h (b # bs) = hexdigit (unat b div 16) # hexdigit (unat b mod 16) # b2h bs"

fun h2b :: "string \<Rightarrow> bytes option" where
  "h2b [] = Some []"
| "h2b [c] = None"
| "h2b (c # d # cs) =
     (case hexval c of
        None \<Rightarrow> None
      | Some hi \<Rightarrow>
          (case hexval d of
             None \<Rightarrow> None
           | Some lo \<Rightarrow>
               (case h2b cs of
                  None \<Rightarrow> None
                | Some bs \<Rightarrow> Some (word_of_nat (16 * hi + lo) # bs))))"

definition hash160hex :: "control \<Rightarrow> string \<Rightarrow> error + string" where
  "hash160hex ctl hexdata =
     (case h2b hexdata of
        None \<Rightarrow> Inl HexError
      | Some bs \<Rightarrow> Inr (b2h (hash160 ctl bs)))"

text \<open>A field that may still be \<open>None\<close> handed to a helper that needs a string.\<close>

definition hash160hex_field :: "control \<Rightarrow> string option \<Rightarrow> error + string" where
  "hash160hex_field ctl field =
     (case field of None \<Rightarrow> Inl TypeError | Some s \<Rightarrow> hash160hex ctl s)"

definition wif2pubkey_field :: "control \<Rightarrow> string option \<Rightarrow> error + string" where
  "wif2pubkey_field ctl field =
     (case field of None \<Rightarrow> Inl TypeError | Some w \<Rightarrow> Inr (wif2pubkey ctl w))"

subsection \<open>The base class (picopayments/channel/base.py)\<close>

text \<open>
  Modelled from the spec: the class \<open>Base\<close> that \<open>Payee\<close> extends is not among
  the sources. Section 4.3 has \<open>setup\<close> reset the channel "to its initial empty
  state", which section 3 describes as "no payer key material set, ..., no deposit,
  no commits"; \<open>clear\<close> is that reset.
\<close>

definition clear :: "channel \<Rightarrow> channel" where
  "clear st =
     st\<lparr>payer_wif := None, payee_wif := None, spend_secret := None,
        deposit_rawtx := None, deposit_script_hex := None,
        commits_requested := [], commits_active := [], commits_revoked := [],
        payout_rawtxs := []\<rparr>"

text \<open>The quantity a commit transfers, as the adapter reads it from the commit's
  raw transaction: \<open>self.control.get_quantity(commit["rawtx"])\<close>.\<close>

definition quantity_of :: "control \<Rightarrow> commit \<Rightarrow> int" where
  "quantity_of ctl c = get_quantity ctl (rawtx c)"

text \<open>
  Modelled from the spec: \<open>Base._order_active\<close>. Section 4.2: "re-sorts
  commits_active ascending by transferred quantity (quantity derived by asking the
  Blockchain Adapter to parse each commit's transaction outputs). Must be
  idempotent and stable for equal quantities." \<open>sort_key\<close> is the stable insertion
  sort of the list library.
\<close>

definition order_active :: "control \<Rightarrow> channel \<Rightarrow> channel" where
  "order_active ctl st =
     st\<lparr>commits_active := sort_key (quantity_of ctl) (commits_active st)\<rparr>"

text \<open>
  Modelled from the spec: \<open>Base.get_transferred_amount\<close>. Section 4.2: "quantity
  of the highest (last) active commit, or zero if none." The highest commit is the
  one that stands last once the active commits are in the order of section 3
  ("totally ordered by transferred quantity; the last element is always the
  highest-value"), so the quantity returned is the largest among the active
  commits. The list is read, not changed.
\<close>

definition get_transferred_amount :: "control \<Rightarrow> channel \<Rightarrow> int" where
  "get_transferred_amount ctl st =
     (case commits_active st of
        [] \<Rightarrow> 0
      | _ # _ \<Rightarrow> quantity_of ctl (last (sort_key (quantity_of ctl) (commits_active st))))"

subsection \<open>setup\<close>

text \<open>
  \<open>setup(payee_wif)\<close>: \<open>secret\<close> is the value of \<open>os.urandom(32)\<close>. The method
  has no \<open>assert\<close> and no \<open>raise\<close>; its result is the pair it returns. As in
  every other operation the collaborators are taken to return: a key that
  \<open>util.wif2pubkey\<close> refuses and an entropy source that fails are outside the
  model.
  (\<open>setup\<close> is a keyword of the prover, hence the name \<open>setup_payee\<close>.)
\<close>

definition setup_payee ::
  "control \<Rightarrow> string \<Rightarrow> bytes \<Rightarrow> channel \<Rightarrow> (error + string \<times> string) \<times> channel" where
  "setup_payee ctl wif secret st =
     (let st1 = clear st;
          st2 = st1\<lparr>payee_wif := Some wif\<rparr>;
          payee_pubkey = wif2pubkey ctl wif;
          st3 = st2\<lparr>spend_secret := Some (b2h secret)\<rparr>;
          spend_secret_hash = b2h (hash160 ctl secret)
      in (Inr (payee_pubkey, spend_secret_hash), st3))"



text \<open>
  Modelled from the spec: \<open>Base._validate_transfer_quantity\<close>. Section 4.3:
  "Validates quantity is non-negative and does not regress below previously
  transferred amounts (delegated check)."
\<close>

definition validate_transfer_quantity :: "control \<Rightarrow> int \<Rightarrow> channel \<Rightarrow> error + unit" where
  "validate_transfer_quantity ctl quantity st =
     (if quantity < 0 \<or> quantity < get_transferred_amount ctl st
      then Inl (InvalidQuantity quantity) else Inr ())"

subsection \<open>set_deposit\<close>

definition assert_unopen_state :: "channel \<Rightarrow> error + unit" where
  "assert_unopen_state st =
     (if payer_wif st \<noteq> None then Inl AssertionError
      else if payee_wif st = None then Inl AssertionError
      else if spend_secret st = None then Inl AssertionError
      else if deposit_rawtx st \<noteq> None then Inl AssertionError
      else if deposit_script_hex st \<noteq> None then Inl AssertionError
      else if length (commits_active st) \<noteq> 0 then Inl AssertionError
      else if length (commits_revoked st) \<noteq> 0 then Inl AssertionError
      else Inr ())"

definition validate_payer_deposit :: "control \<Rightarrow> string \<Rightarrow> string \<Rightarrow> error + unit" where
  "validate_payer_deposit ctl rtx script_hex =
     (if bad_signature_count ctl rtx = 1 then Inr () else Inl AssertionError)"

definition validate_payer_commit :: "control \<Rightarrow> string \<Rightarrow> string \<Rightarrow> error + unit" where
  "validate_payer_commit ctl rtx script_hex =
     (if bad_signature_count ctl rtx = 1 then Inr () else Inl AssertionError)"

text \<open>The two messages, \<open>msg.format(given, own)\<close>.\<close>

definition incorrect_spend_secret_hash :: "string \<Rightarrow> string \<Rightarrow> error" where
  "incorrect_spend_secret_hash given own =
     ValueError (''Incorrect spend secret hash: '' @ given @ '' != '' @ own)"

definition incorrect_payee_pubkey :: "string \<Rightarrow> string \<Rightarrow> error" where
  "incorrect_payee_pubkey given own =
     ValueError (''Incorrect payee pubkey: '' @ given @ '' != '' @ own)"

definition validate_deposit_spend_secret_hash ::
  "control \<Rightarrow> bytes \<Rightarrow> channel \<Rightarrow> error + unit" where
  "validate_deposit_spend_secret_hash ctl scr st =
     (let given_spend_secret_hash = get_deposit_spend_secret_hash ctl scr in
      case hash160hex_field ctl (spend_secret st) of
        Inl e \<Rightarrow> Inl e
      | Inr own_spend_secret_hash \<Rightarrow>
          if given_spend_secret_hash \<noteq> own_spend_secret_hash
          then Inl (incorrect_spend_secret_hash given_spend_secret_hash own_spend_secret_hash)
          else Inr ())"

definition validate_deposit_payee_pubkey ::
  "control \<Rightarrow> bytes \<Rightarrow> channel \<Rightarrow> error + unit" where
  "validate_deposit_payee_pubkey ctl scr st =
     (let given_payee_pubkey = get_deposit_payee_pubkey ctl scr in
      case wif2pubkey_field ctl (payee_wif st) of
        Inl e \<Rightarrow> Inl e
      | Inr own_payee_pubkey \<Rightarrow>
          if given_payee_pubkey \<noteq> own_payee_pubkey
          then Inl (incorrect_payee_pubkey given_payee_pubkey own_payee_pubkey)
          else Inr ())"

definition set_deposit ::
  "control \<Rightarrow> string \<Rightarrow> string \<Rightarrow> channel \<Rightarrow> (error + unit) \<times> channel" where
  "set_deposit ctl rtx script_hex st =
     (case assert_unopen_state st of
        Inl e \<Rightarrow> (Inl e, st)
      | Inr _ \<Rightarrow>
     (case validate_payer_deposit ctl rtx script_hex of
        Inl e \<Rightarrow> (Inl e, st)
      | Inr _ \<Rightarrow>
     (case h2b script_hex of
        None \<Rightarrow> (Inl HexError, st)
      | Some scr \<Rightarrow>
     (case validate_deposit_spend_secret_hash ctl scr st of
        Inl e \<Rightarrow> (Inl e, st)
      | Inr _ \<Rightarrow>
     (case validate_deposit_payee_pubkey ctl scr st of
        Inl e \<Rightarrow> (Inl e, st)
      | Inr _ \<Rightarrow>
          (Inr (), st\<lparr>deposit_rawtx := Some rtx,
                      deposit_script_hex := Some script_hex\<rparr>))))))"

subsection \<open>request_commit and set_commit\<close>

text \<open>\<open>rnd\<close> is the value of \<open>os.urandom(32)\<close>.\<close>

definition request_commit ::
  "control \<Rightarrow> int \<Rightarrow> bytes \<Rightarrow> channel \<Rightarrow> (error + int \<times> string) \<times> channel" where
  "request_commit ctl quantity rnd st =
     (case validate_transfer_quantity ctl quantity st of
        Inl e \<Rightarrow> (Inl e, st)
      | Inr _ \<Rightarrow>
          (let secret = b2h rnd in
           case hash160hex ctl secret of
             Inl e \<Rightarrow> (Inl e, st)
           | Inr secret_hash \<Rightarrow>
               (Inr (quantity, secret_hash),
                st\<lparr>commits_requested := commits_requested st @ [secret]\<rparr>)))"

definition validate_commit_secret_hash ::
  "control \<Rightarrow> bytes \<Rightarrow> channel \<Rightarrow> error + unit" where
  "validate_commit_secret_hash ctl scr st =
     (let given_spend_secret_hash = get_commit_spend_secret_hash ctl scr in
      case hash160hex_field ctl (spend_secret st) of
        Inl e \<Rightarrow> Inl e
      | Inr own_spend_secret_hash \<Rightarrow>
          if given_spend_secret_hash \<noteq> own_spend_secret_hash
          then Inl (incorrect_spend_secret_hash given_spend_secret_hash own_spend_secret_hash)
          else Inr ())"

definition validate_commit_payee_pubkey ::
  "control \<Rightarrow> bytes \<Rightarrow> channel \<Rightarrow> error + unit" where
  "validate_commit_payee_pubkey ctl scr st =
     (let given_payee_pubkey = get_commit_payee_pubkey ctl scr in
      case wif2pubkey_field ctl (payee_wif st) of
        Inl e \<Rightarrow> Inl e
      | Inr own_payee_pubkey \<Rightarrow>
          if given_payee_pubkey \<noteq> own_payee_pubkey
          then Inl (incorrect_payee_pubkey given_payee_pubkey own_payee_pubkey)
          else Inr ())"

text \<open>
  The loop of \<open>set_commit\<close> over a copy of \<open>commits_requested\<close>: the first secret
  whose hash is the script's revoke secret hash, \<open>None\<close> when the loop runs out.
\<close>

fun find_request :: "control \<Rightarrow> string \<Rightarrow> string list \<Rightarrow> error + string option" where
  "find_request ctl revoke_secret_hash [] = Inr None"
| "find_request ctl revoke_secret_hash (s # ss) =
     (case hash160hex ctl s of
        Inl e \<Rightarrow> Inl e
      | Inr h \<Rightarrow>
          if revoke_secret_hash = h then Inr (Some s)
          else find_request ctl revoke_secret_hash ss)"

text \<open>The body of the loop at a match: remove the request, order, append.\<close>

definition accept_commit ::
  "control \<Rightarrow> string \<Rightarrow> string \<Rightarrow> string \<Rightarrow> channel \<Rightarrow> channel" where
  "accept_commit ctl rtx script_hex secret st =
     (let st1 = st\<lparr>commits_requested := remove1 secret (commits_requested st)\<rparr>;
          st2 = order_active ctl st1
      in st2\<lparr>commits_active :=
               commits_active st2 @
                 [\<lparr>rawtx = rtx, script = script_hex, revoke_secret = secret\<rparr>]\<rparr>)"

definition set_commit ::
  "control \<Rightarrow> string \<Rightarrow> string \<Rightarrow> channel \<Rightarrow> (error + int option) \<times> channel" where
  "set_commit ctl rtx script_hex st =
     (case validate_payer_commit ctl rtx script_hex of
        Inl e \<Rightarrow> (Inl e, st)
      | Inr _ \<Rightarrow>
     (case h2b script_hex of
        None \<Rightarrow> (Inl HexError, st)
      | Some scr \<Rightarrow>
     (case validate_commit_secret_hash ctl scr st of
        Inl e \<Rightarrow> (Inl e, st)
      | Inr _ \<Rightarrow>
     (case validate_commit_payee_pubkey ctl scr st of
        Inl e \<Rightarrow> (Inl e, st)
      | Inr _ \<Rightarrow>
     (case find_request ctl (get_commit_revoke_secret_hash ctl scr)
             (commits_requested st) of
        Inl e \<Rightarrow> (Inl e, st)
      | Inr None \<Rightarrow> (Inr None, st)
      | Inr (Some secret) \<Rightarrow>
          (let st' = accept_commit ctl rtx script_hex secret st
           in (Inr (Some (get_transferred_amount ctl st')), st')))))))"

subsection \<open>revoke_until\<close>



subsection \<open>get_payout_recoverable\<close>

text \<open>The inner loop over the outputs of one address.\<close>

fun utxo_scan :: "control \<Rightarrow> bytes \<Rightarrow> int \<Rightarrow> utxo list \<Rightarrow> bytes list \<Rightarrow> bytes list" where
  "utxo_scan ctl scr delay_time [] scripts = scripts"
| "utxo_scan ctl scr delay_time (u # us) scripts =
     (if confirms ctl (txid u) \<ge> delay_time
      then utxo_scan ctl scr delay_time us (scripts @ [scr])
      else utxo_scan ctl scr delay_time us scripts)"

text \<open>The outer loop over \<open>commits_active + commits_revoked\<close>; \<open>scripts\<close> is the
  list collected so far.\<close>

fun payout_scan :: "control \<Rightarrow> commit list \<Rightarrow> bytes list \<Rightarrow> error + bytes list" where
  "payout_scan ctl [] scripts = Inr scripts"
| "payout_scan ctl (c # cs) scripts =
     (case h2b (script c) of
        None \<Rightarrow> Inl HexError
      | Some scr \<Rightarrow>
          (let delay_time = get_commit_delay_time ctl scr;
               address = script2address ctl scr
           in if commit_spent ctl c then payout_scan ctl cs scripts
              else if can_spend_from_address ctl address
              then payout_scan ctl cs
                     (utxo_scan ctl scr delay_time (retrieve_utxos ctl [address]) scripts)
              else payout_scan ctl cs scripts))"

definition get_payout_recoverable ::
  "control \<Rightarrow> channel \<Rightarrow> (error + bytes list) \<times> channel" where
  "get_payout_recoverable ctl st =
     (payout_scan ctl (commits_active st @ commits_revoked st) [], st)"

subsection \<open>A concrete environment\<close>

text \<open>
  A small instance of the collaborators, for running the operations on concrete
  inputs: the hash is the identity on bytes, a commit script is one byte of
  spend secret hash followed by the revoke secret hash, a deposit script is the
  spend secret hash, the quantity of a transaction is the length of its text, and
  every address holds one output with six confirmations.
\<close>

definition ctl0 :: control where
  "ctl0 =
     \<lparr>hash160 = (\<lambda>bs. bs),
      wif2pubkey = (\<lambda>w. ''pub''),
      bad_signature_count = (\<lambda>r. if r = ''fully-signed-tx'' then 0 else 1),
      get_deposit_spend_secret_hash = (\<lambda>scr. b2h scr),
      get_deposit_payee_pubkey = (\<lambda>scr. ''pub''),
      get_commit_spend_secret_hash = (\<lambda>scr. b2h (take 1 scr)),
      get_commit_payee_pubkey = (\<lambda>scr. ''pub''),
      get_commit_revoke_secret_hash = (\<lambda>scr. b2h (drop 1 scr)),
      get_commit_delay_time = (\<lambda>scr. int (length scr)),
      get_quantity = (\<lambda>r. int (length r)),
      script2address = (\<lambda>scr. b2h scr),
      commit_spent = (\<lambda>c. rawtx c = ''spent''),
      can_spend_from_address = (\<lambda>a. a \<noteq> []),
      retrieve_utxos = (\<lambda>as. [\<lparr>txid = ''t''\<rparr>]),
      confirms = (\<lambda>t. 6),
      gettxid = (\<lambda>r. r)\<rparr>"

text \<open>The channel object before \<open>setup\<close>: every field at its initial value.\<close>

definition st_empty :: channel where
  "st_empty =
     \<lparr>payer_wif = None, payee_wif = None, spend_secret = None,
      deposit_rawtx = None, deposit_script_hex = None,
      commits_requested = [], commits_active = [], commits_revoked = [],
      payout_rawtxs = []\<rparr>"

text \<open>The channel after \<open>setup\<close>, and the same channel with a deposit set.\<close>

definition st_unopened :: channel where
  "st_unopened = st_empty\<lparr>payee_wif := Some ''wif'', spend_secret := Some ''00''\<rparr>"

definition st_deposited :: channel where
  "st_deposited =
     st_unopened\<lparr>deposit_rawtx := Some ''tx0'', deposit_script_hex := Some ''00''\<rparr>"

text \<open>The deposited channel with two commits requested.\<close>

definition st_requested :: channel where
  "st_requested = st_deposited\<lparr>commits_requested := [''aa'', ''bb'']\<rparr>"

subsection \<open>Sequences of calls\<close>

text \<open>
  A client's sequence of \<open>request_commit\<close> calls (stopping at the first one that
  raises), and a sequence of \<open>set_commit\<close> calls with the result of each.
\<close>

fun request_all ::
  "control \<Rightarrow> (int \<times> bytes) list \<Rightarrow> channel \<Rightarrow> (error + (int \<times> string) list) \<times> channel" where
  "request_all ctl [] st = (Inr [], st)"
| "request_all ctl ((quantity, rnd) # reqs) st =
     (case request_commit ctl quantity rnd st of
        (Inl e, st') \<Rightarrow> (Inl e, st')
      | (Inr out, st') \<Rightarrow>
          (case request_all ctl reqs st' of
             (Inl e, st'') \<Rightarrow> (Inl e, st'')
           | (Inr outs, st'') \<Rightarrow> (Inr (out # outs), st'')))"

fun commit_all ::
  "control \<Rightarrow> (string \<times> string) list \<Rightarrow> channel \<Rightarrow> (error + int option) list \<times> channel" where
  "commit_all ctl [] st = ([], st)"
| "commit_all ctl ((rtx, script_hex) # calls) st =
     (case set_commit ctl rtx script_hex st of
        (r, st') \<Rightarrow>
          (case commit_all ctl calls st' of (rs, st'') \<Rightarrow> (r # rs, st'')))"

text \<open>
  A \<open>set_commit\<close> call that matches a request: \<open>keys\<close> is the pair that
  \<open>setup\<close> returned (public key, spend secret hash), \<open>out\<close> the pair that
  \<open>request_commit\<close> returned (quantity, revoke secret hash), \<open>call\<close> the
  arguments of \<open>set_commit\<close> (raw transaction, script). The transaction has one
  bad signature slot and transfers the requested quantity, and the script decodes
  and carries the returned spend secret hash, public key and revoke secret hash.
\<close>

definition matching_commit ::
  "control \<Rightarrow> string \<times> string \<Rightarrow> int \<times> string \<Rightarrow> string \<times> string \<Rightarrow> bool" where
  "matching_commit ctl keys out call \<longleftrightarrow>
     bad_signature_count ctl (fst call) = 1 \<and>
     get_quantity ctl (fst call) = fst out \<and>
     (case h2b (snd call) of
        None \<Rightarrow> False
      | Some scr \<Rightarrow>
          get_commit_spend_secret_hash ctl scr = snd keys \<and>
          get_commit_payee_pubkey ctl scr = fst keys \<and>
          get_commit_revoke_secret_hash ctl scr = snd out)"


subsection \<open>A channel with active and revoked commits\<close>

definition st_commits :: channel where
  "st_commits =
     st_deposited\<lparr>
       commits_active :=
         [\<lparr>rawtx = ''tx22'', script = ''00bb'', revoke_secret = ''bb''\<rparr>,
          \<lparr>rawtx = ''tx1'', script = ''00aa'', revoke_secret = ''aa''\<rparr>,
          \<lparr>rawtx = ''spent'', script = ''00cc'', revoke_secret = ''cc''\<rparr>],
       commits_revoked :=
         [\<lparr>rawtx = ''tx0'', script = ''00dd0000000000'', revoke_secret = ''dd''\<rparr>]\<rparr>"

text \<open>
  The condition for collecting the script \<open>s\<close> on behalf of the commit \<open>c\<close>, as
  \<open>get_payout_recoverable\<close> tests it: the script is the commit's, the commit is
  not reported spent, its address can be spent from, and one of the outputs at
  the address has at least as many confirmations as the script's delay.
\<close>

definition recoverable :: "control \<Rightarrow> commit \<Rightarrow> bytes \<Rightarrow> bool" where
  "recoverable ctl c s \<longleftrightarrow>
     h2b (script c) = Some s \<and> \<not> commit_spent ctl c \<and>
     can_spend_from_address ctl (script2address ctl s) \<and>
     (\<exists>u\<in>set (retrieve_utxos ctl [script2address ctl s]).
        get_commit_delay_time ctl s \<le> confirms ctl (txid u))"



section \<open>Hex round trip\<close>

lemma hexval_hexdigit_upto: "\<forall>m\<in>set [0..<16]. hexval (hexdigit m) = Some m"
  by code_simp

lemma hexval_hexdigit: "n < 16 \<Longrightarrow> hexval (hexdigit n) = Some n"
  using hexval_hexdigit_upto by simp

lemma byte_of_nibbles: "word_of_nat (16 * (unat b div 16) + unat b mod 16) = (b :: byte)"
  by simp

lemma unat_byte_div16: "unat (b :: byte) div 16 < 16"
  using unsigned_less [of b, where 'a=nat] by simp

lemma h2b_b2h: "h2b (b2h bs) = Some bs"
proof (induction bs)
  case Nil
  show ?case by simp
next
  case (Cons b bs)
  have hi: "hexval (hexdigit (unat b div 16)) = Some (unat b div 16)"
    by (rule hexval_hexdigit) (rule unat_byte_div16)
  have lo: "hexval (hexdigit (unat b mod 16)) = Some (unat b mod 16)"
    by (rule hexval_hexdigit) simp
  show ?case
    by (simp only: b2h.simps h2b.simps hi lo Cons.IH option.case byte_of_nibbles)
qed

lemma hash160hex_b2h: "hash160hex ctl (b2h bs) = Inr (b2h (hash160 ctl bs))"
  by (simp add: hash160hex_def h2b_b2h)

section \<open>setup: the returned commitment\<close>

text \<open>
  C8. Round trip of \<open>setup\<close>: the call returns the payee public key together with
  a spend secret hash, and hashing the spend secret that the call has stored in
  the channel (as the validation of a deposit or commit script does, with
  \<open>hash160hex\<close>) succeeds and yields exactly that returned hash.
\<close>

theorem setup_spend_secret_hash_roundtrip:
  "\<exists>pub h. fst (setup_payee ctl wif secret st) = Inr (pub, h) \<and>
     hash160hex_field ctl (spend_secret (snd (setup_payee ctl wif secret st))) = Inr h"
  by (simp add: setup_payee_def Let_def hash160hex_field_def hash160hex_b2h)

section \<open>setup and the unopened state\<close>

text \<open>
  C5 (as the code has it). \<open>setup\<close> checks nothing about the state it is called
  in. In every state, for a key that \<open>util.wif2pubkey\<close> accepts and a secret that
  the entropy source delivers, it returns the payee public key and the hash of
  the secret, and it leaves the channel with exactly the given key and the hex of
  that secret stored and every other field reset: the unopened state that
  \<open>set_deposit\<close> asserts (no payer key, no deposit, no commits). The assertion of
  the unopened state is made by \<open>set_deposit\<close> only: called outside that state it
  fails with an assertion error and changes nothing.
\<close>

theorem setup_callable_in_any_state:
  "setup_payee ctl wif secret st =
     (Inr (wif2pubkey ctl wif, b2h (hash160 ctl secret)),
      \<lparr>payer_wif = None, payee_wif = Some wif, spend_secret = Some (b2h secret),
       deposit_rawtx = None, deposit_script_hex = None,
       commits_requested = [], commits_active = [], commits_revoked = [],
       payout_rawtxs = []\<rparr>) \<and>
   assert_unopen_state (snd (setup_payee ctl wif secret st)) = Inr () \<and>
   (assert_unopen_state st \<noteq> Inr () \<longrightarrow>
      set_deposit ctl rtx script_hex st = (Inl AssertionError, st))"
  by (cases st)
     (auto simp: setup_payee_def Let_def clear_def assert_unopen_state_def set_deposit_def
      split: if_splits)

text \<open>
  The claim as stated fails on a channel that already holds a deposit: the
  unopened-state assertion does not hold there, and \<open>setup\<close> returns normally.
\<close>

theorem setup_outside_unopened_counterexample:
  "assert_unopen_state st_deposited = Inl AssertionError \<and>
   fst (setup_payee ctl0 ''wif'' [1] st_deposited) = Inr (''pub'', ''01'')"
  by (simp add: setup_payee_def Let_def clear_def assert_unopen_state_def st_deposited_def
      st_unopened_def st_empty_def ctl0_def hexdigit_def)

theorem setup_callable_in_any_state_witness:
  "assert_unopen_state st_deposited \<noteq> Inr () \<and>
   set_deposit ctl0 ''tx1'' ''00'' st_deposited = (Inl AssertionError, st_deposited) \<and>
   setup_payee ctl0 ''wif'' [0] st_deposited = (Inr (''pub'', ''00''), st_unopened) \<and>
   assert_unopen_state st_unopened = Inr ()"
  using setup_callable_in_any_state [of ctl0 "''wif''" "[0]" st_deposited "''tx1''" "''00''"]
  by (simp add: assert_unopen_state_def st_deposited_def st_unopened_def st_empty_def
      ctl0_def hexdigit_def)

section \<open>set_deposit: mismatching scripts\<close>

text \<open>
  C4 (as the code has it). On an unopened channel, for a transaction with exactly
  one bad signature slot and a script that decodes: if the script's spend secret
  hash differs from the hash of the channel's spend secret, or its payee public
  key differs from the payee's own, \<open>set_deposit\<close> fails with a \<open>ValueError\<close>
  whose message names the given and the expected value (the hashes when the hash
  differs, the public keys otherwise), the channel is unchanged and the deposit
  stays unset.
\<close>

theorem set_deposit_rejects_mismatch:
  "assert_unopen_state st = Inr () \<Longrightarrow> bad_signature_count ctl rtx = 1 \<Longrightarrow>
   h2b script_hex = Some scr \<Longrightarrow>
   hash160hex_field ctl (spend_secret st) = Inr own_hash \<Longrightarrow> payee_wif st = Some w \<Longrightarrow>
   get_deposit_spend_secret_hash ctl scr \<noteq> own_hash \<or>
   get_deposit_payee_pubkey ctl scr \<noteq> wif2pubkey ctl w \<Longrightarrow>
   set_deposit ctl rtx script_hex st =
     (Inl (if get_deposit_spend_secret_hash ctl scr \<noteq> own_hash
           then ValueError (''Incorrect spend secret hash: '' @
                  get_deposit_spend_secret_hash ctl scr @ '' != '' @ own_hash)
           else ValueError (''Incorrect payee pubkey: '' @
                  get_deposit_payee_pubkey ctl scr @ '' != '' @ wif2pubkey ctl w)), st) \<and>
   deposit_rawtx st = None \<and> deposit_script_hex st = None"
  by (auto simp: set_deposit_def validate_payer_deposit_def
      validate_deposit_spend_secret_hash_def validate_deposit_payee_pubkey_def Let_def
      wif2pubkey_field_def incorrect_spend_secret_hash_def incorrect_payee_pubkey_def
      assert_unopen_state_def split: if_splits)

text \<open>
  The claim as stated fails when the transaction does not have exactly one bad
  signature slot: the failure is then the assertion of \<open>_validate_payer_deposit\<close>,
  which carries no values, although the script's hash differs.
\<close>

theorem set_deposit_bad_signature_counterexample:
  "assert_unopen_state st_unopened = Inr () \<and> h2b ''01'' = Some [1] \<and>
   hash160hex_field ctl0 (spend_secret st_unopened) = Inr ''00'' \<and>
   get_deposit_spend_secret_hash ctl0 [1] = ''01'' \<and>
   set_deposit ctl0 ''fully-signed-tx'' ''01'' st_unopened = (Inl AssertionError, st_unopened)"
  by (simp add: set_deposit_def validate_payer_deposit_def assert_unopen_state_def
      st_unopened_def st_empty_def ctl0_def hash160hex_field_def hash160hex_def hexval_def
      hexdigit_def)

theorem set_deposit_rejects_mismatch_witness:
  "set_deposit ctl0 ''tx0'' ''01'' st_unopened =
     (Inl (ValueError ''Incorrect spend secret hash: 01 != 00''), st_unopened) \<and>
   deposit_rawtx st_unopened = None \<and> deposit_script_hex st_unopened = None"
proof -
  have a: "assert_unopen_state st_unopened = Inr ()"
    by (simp add: assert_unopen_state_def st_unopened_def st_empty_def)
  have b: "bad_signature_count ctl0 ''tx0'' = 1" by (simp add: ctl0_def)
  have c: "h2b ''01'' = Some [1]" by (simp add: hexval_def)
  have d: "hash160hex_field ctl0 (spend_secret st_unopened) = Inr ''00''"
    by (simp add: st_unopened_def st_empty_def ctl0_def hash160hex_field_def hash160hex_def
        hexval_def hexdigit_def)
  have e: "payee_wif st_unopened = Some ''wif''" by (simp add: st_unopened_def st_empty_def)
  have f: "get_deposit_spend_secret_hash ctl0 [1] \<noteq> ''00'' \<or>
           get_deposit_payee_pubkey ctl0 [1] \<noteq> wif2pubkey ctl0 ''wif''"
    by (simp add: ctl0_def hexdigit_def)
  show ?thesis
    using set_deposit_rejects_mismatch [OF a b c d e f] by (simp add: ctl0_def hexdigit_def)
qed

section \<open>set_commit: no matching request\<close>

lemma find_request_Some:
  "find_request ctl h ss = Inr (Some s) \<Longrightarrow> s \<in> set ss \<and> hash160hex ctl s = Inr h"
  by (induction ss) (auto split: sum.splits if_splits)

lemma find_request_None:
  "\<forall>s\<in>set ss. \<exists>h'. hash160hex ctl s = Inr h' \<and> h' \<noteq> h \<Longrightarrow> find_request ctl h ss = Inr None"
  by (induction ss) (auto split: sum.splits)

text \<open>
  C2 (as the code has it). When the transaction has exactly one bad signature
  slot, the script decodes and carries the channel's spend secret hash and the
  payee's public key, and no secret of \<open>commits_requested\<close> hashes to the
  script's revoke secret hash, \<open>set_commit\<close> returns \<open>None\<close> and leaves the
  whole channel state unchanged.
\<close>

theorem set_commit_no_match:
  "bad_signature_count ctl rtx = 1 \<Longrightarrow> h2b script_hex = Some scr \<Longrightarrow>
   hash160hex_field ctl (spend_secret st) = Inr (get_commit_spend_secret_hash ctl scr) \<Longrightarrow>
   wif2pubkey_field ctl (payee_wif st) = Inr (get_commit_payee_pubkey ctl scr) \<Longrightarrow>
   \<forall>s\<in>set (commits_requested st).
      \<exists>h. hash160hex ctl s = Inr h \<and> h \<noteq> get_commit_revoke_secret_hash ctl scr \<Longrightarrow>
   set_commit ctl rtx script_hex st = (Inr None, st)"
  by (simp add: set_commit_def validate_payer_commit_def validate_commit_secret_hash_def
      validate_commit_payee_pubkey_def Let_def find_request_None)

text \<open>
  The claim as stated fails for a script that matches no request and also carries
  a wrong spend secret hash: validation comes first and raises \<open>ValueError\<close>.
\<close>

theorem set_commit_no_match_counterexample:
  "find_request ctl0 (get_commit_revoke_secret_hash ctl0 [1, 204]) (commits_requested st_requested)
     = Inr None \<and>
   h2b ''01cc'' = Some [1, 204] \<and>
   set_commit ctl0 ''tx1'' ''01cc'' st_requested =
     (Inl (ValueError ''Incorrect spend secret hash: 01 != 00''), st_requested)"
  by (simp add: set_commit_def validate_payer_commit_def validate_commit_secret_hash_def
      incorrect_spend_secret_hash_def Let_def
      st_requested_def st_deposited_def st_unopened_def st_empty_def ctl0_def
      hash160hex_field_def hash160hex_def hexval_def hexdigit_def)

theorem set_commit_no_match_witness:
  "set_commit ctl0 ''tx1'' ''00cc'' st_requested = (Inr None, st_requested)"
proof -
  have b: "bad_signature_count ctl0 ''tx1'' = 1" by (simp add: ctl0_def)
  have c: "h2b ''00cc'' = Some [0, 204]" by (simp add: hexval_def)
  have d: "hash160hex_field ctl0 (spend_secret st_requested) =
             Inr (get_commit_spend_secret_hash ctl0 [0, 204])"
    by (simp add: st_requested_def st_deposited_def st_unopened_def st_empty_def ctl0_def
        hash160hex_field_def hash160hex_def hexval_def hexdigit_def)
  have e: "wif2pubkey_field ctl0 (payee_wif st_requested) =
             Inr (get_commit_payee_pubkey ctl0 [0, 204])"
    by (simp add: st_requested_def st_deposited_def st_unopened_def st_empty_def ctl0_def
        wif2pubkey_field_def)
  have f: "\<forall>s\<in>set (commits_requested st_requested).
      \<exists>h. hash160hex ctl0 s = Inr h \<and> h \<noteq> get_commit_revoke_secret_hash ctl0 [0, 204]"
    by (simp add: st_requested_def st_deposited_def st_unopened_def st_empty_def ctl0_def
        hash160hex_def hexval_def hexdigit_def)
  show ?thesis using set_commit_no_match [OF b c d e f] .
qed


section \<open>set_commit: accepting a commit\<close>

lemma count_list_remove1: "x \<in> set xs \<Longrightarrow> count_list (remove1 x xs) x = count_list xs x - 1"
  by (induction xs) auto

lemma accept_commit_active:
  "commits_active (accept_commit ctl rtx sh secret st) =
     sort_key (quantity_of ctl) (commits_active st) @
       [\<lparr>rawtx = rtx, script = sh, revoke_secret = secret\<rparr>]"
  by (simp add: accept_commit_def order_active_def Let_def)

lemma sorted_le_last: "sorted xs \<Longrightarrow> (y::int) \<in> set xs \<Longrightarrow> y \<le> last xs"
  by (induction xs) (auto simp: last_in_set)

lemma get_transferred_amount_nonempty:
  "commits_active st \<noteq> [] \<Longrightarrow>
   get_transferred_amount ctl st =
     quantity_of ctl (last (sort_key (quantity_of ctl) (commits_active st)))"
  by (cases "commits_active st") (simp_all add: get_transferred_amount_def)

lemma get_transferred_amount_Max:
  "commits_active st \<noteq> [] \<Longrightarrow>
   get_transferred_amount ctl st = Max (quantity_of ctl ` set (commits_active st))"
proof -
  assume ne: "commits_active st \<noteq> []"
  let ?S = "sort_key (quantity_of ctl) (commits_active st)"
  have ne': "?S \<noteq> []" using ne by (metis length_sort list.size(3) length_0_conv)
  have srt: "sorted (map (quantity_of ctl) ?S)" by simp
  have lastq: "quantity_of ctl (last ?S) = last (map (quantity_of ctl) ?S)"
    using ne' by (simp add: last_map)
  have mem: "quantity_of ctl (last ?S) \<in> quantity_of ctl ` set (commits_active st)"
    using ne' by (metis imageI last_in_set set_sort)
  have ub: "\<forall>y\<in>quantity_of ctl ` set (commits_active st). y \<le> quantity_of ctl (last ?S)"
  proof
    fix y assume "y \<in> quantity_of ctl ` set (commits_active st)"
    then have "y \<in> set (map (quantity_of ctl) ?S)" by simp
    then show "y \<le> quantity_of ctl (last ?S)"
      using srt lastq sorted_le_last by metis
  qed
  have "Max (quantity_of ctl ` set (commits_active st)) = quantity_of ctl (last ?S)"
    by (rule Max_eqI) (use mem ub in auto)
  then show ?thesis using get_transferred_amount_nonempty [OF ne, of ctl] by simp
qed

lemma get_transferred_amount_snoc:
  "commits_active st = xs @ [c] \<Longrightarrow> \<forall>x\<in>set xs. quantity_of ctl x \<le> quantity_of ctl c \<Longrightarrow>
   get_transferred_amount ctl st = quantity_of ctl c"
proof -
  assume act: "commits_active st = xs @ [c]"
    and le: "\<forall>x\<in>set xs. quantity_of ctl x \<le> quantity_of ctl c"
  have "Max (quantity_of ctl ` set (commits_active st)) = quantity_of ctl c"
    by (rule Max_eqI) (use act le in auto)
  then show ?thesis using get_transferred_amount_Max [of st ctl] act by simp
qed

lemmas st_defs = st_requested_def st_deposited_def st_unopened_def st_empty_def

lemma ctl0_simps:
  "bad_signature_count ctl0 r = (if r = ''fully-signed-tx'' then 0 else 1)"
  "hash160 ctl0 bs = bs" "wif2pubkey ctl0 w = ''pub''"
  "get_commit_spend_secret_hash ctl0 scr = b2h (take 1 scr)"
  "get_commit_payee_pubkey ctl0 scr = ''pub''"
  "get_commit_revoke_secret_hash ctl0 scr = b2h (drop 1 scr)"
  "get_quantity ctl0 r = int (length r)"
  by (simp_all add: ctl0_def)

text \<open>
  C3. When the transaction and the script pass validation and the loop of
  \<open>set_commit\<close> finds a secret in \<open>commits_requested\<close> whose hash equals the
  script's revoke secret hash, that secret is a requested one with that hash, and
  \<open>set_commit\<close> removes one occurrence of exactly that secret from
  \<open>commits_requested\<close> (so that, the requests being distinct, it is no longer
  requested and cannot match a later call), re-orders \<open>commits_active\<close>, appends
  the record of the new commit with that secret, changes nothing else, and
  returns the transferred amount of the new state.
\<close>

theorem set_commit_match:
  "bad_signature_count ctl rtx = 1 \<Longrightarrow> h2b script_hex = Some scr \<Longrightarrow>
   hash160hex_field ctl (spend_secret st) = Inr (get_commit_spend_secret_hash ctl scr) \<Longrightarrow>
   wif2pubkey_field ctl (payee_wif st) = Inr (get_commit_payee_pubkey ctl scr) \<Longrightarrow>
   find_request ctl (get_commit_revoke_secret_hash ctl scr) (commits_requested st)
     = Inr (Some secret) \<Longrightarrow>
   secret \<in> set (commits_requested st) \<and>
   hash160hex ctl secret = Inr (get_commit_revoke_secret_hash ctl scr) \<and>
   (\<exists>st'. set_commit ctl rtx script_hex st = (Inr (Some (get_transferred_amount ctl st')), st') \<and>
      commits_requested st' = remove1 secret (commits_requested st) \<and>
      count_list (commits_requested st') secret = count_list (commits_requested st) secret - 1 \<and>
      (distinct (commits_requested st) \<longrightarrow> secret \<notin> set (commits_requested st')) \<and>
      commits_active st' =
        commits_active (order_active ctl st) @
          [\<lparr>rawtx = rtx, script = script_hex, revoke_secret = secret\<rparr>] \<and>
      commits_revoked st' = commits_revoked st \<and> payout_rawtxs st' = payout_rawtxs st \<and>
      payer_wif st' = payer_wif st \<and> payee_wif st' = payee_wif st \<and>
      spend_secret st' = spend_secret st \<and> deposit_rawtx st' = deposit_rawtx st \<and>
      deposit_script_hex st' = deposit_script_hex st)"
proof -
  assume b: "bad_signature_count ctl rtx = 1" and c: "h2b script_hex = Some scr"
    and d: "hash160hex_field ctl (spend_secret st) = Inr (get_commit_spend_secret_hash ctl scr)"
    and e: "wif2pubkey_field ctl (payee_wif st) = Inr (get_commit_payee_pubkey ctl scr)"
    and f: "find_request ctl (get_commit_revoke_secret_hash ctl scr) (commits_requested st)
              = Inr (Some secret)"
  from f have mem: "secret \<in> set (commits_requested st)"
    and h: "hash160hex ctl secret = Inr (get_commit_revoke_secret_hash ctl scr)"
    using find_request_Some by blast+
  let ?st' = "accept_commit ctl rtx script_hex secret st"
  have run: "set_commit ctl rtx script_hex st = (Inr (Some (get_transferred_amount ctl ?st')), ?st')"
    using b c d e f
    by (simp add: set_commit_def validate_payer_commit_def validate_commit_secret_hash_def
        validate_commit_payee_pubkey_def Let_def)
  have req: "commits_requested ?st' = remove1 secret (commits_requested st)"
    by (simp add: accept_commit_def order_active_def Let_def)
  have cnt: "count_list (commits_requested ?st') secret = count_list (commits_requested st) secret - 1"
    using mem by (simp add: req count_list_remove1)
  have gone: "distinct (commits_requested st) \<longrightarrow> secret \<notin> set (commits_requested ?st')"
    by (simp add: req)
  have act: "commits_active ?st' = commits_active (order_active ctl st) @
          [\<lparr>rawtx = rtx, script = script_hex, revoke_secret = secret\<rparr>]"
    by (simp add: accept_commit_def order_active_def Let_def)
  have rest: "commits_revoked ?st' = commits_revoked st \<and> payout_rawtxs ?st' = payout_rawtxs st \<and>
      payer_wif ?st' = payer_wif st \<and> payee_wif ?st' = payee_wif st \<and>
      spend_secret ?st' = spend_secret st \<and> deposit_rawtx ?st' = deposit_rawtx st \<and>
      deposit_script_hex ?st' = deposit_script_hex st"
    by (simp add: accept_commit_def order_active_def Let_def)
  show ?thesis using mem h run req cnt gone act rest by blast
qed

theorem set_commit_match_witness:
  "''aa'' \<in> set (commits_requested st_requested) \<and>
   (\<exists>st'. set_commit ctl0 ''tx1'' ''00aa'' st_requested =
            (Inr (Some (get_transferred_amount ctl0 st')), st') \<and>
          commits_requested st' = [''bb''] \<and>
          commits_active st' = [\<lparr>rawtx = ''tx1'', script = ''00aa'', revoke_secret = ''aa''\<rparr>])"
proof -
  have b: "bad_signature_count ctl0 ''tx1'' = 1" by (simp add: ctl0_simps)
  have c: "h2b ''00aa'' = Some [0, 170]" by (simp add: hexval_def)
  have d: "hash160hex_field ctl0 (spend_secret st_requested) =
             Inr (get_commit_spend_secret_hash ctl0 [0, 170])"
    by (simp add: st_defs ctl0_simps hash160hex_field_def hash160hex_def hexval_def hexdigit_def)
  have e: "wif2pubkey_field ctl0 (payee_wif st_requested) =
             Inr (get_commit_payee_pubkey ctl0 [0, 170])"
    by (simp add: st_defs ctl0_simps wif2pubkey_field_def)
  have f: "find_request ctl0 (get_commit_revoke_secret_hash ctl0 [0, 170])
             (commits_requested st_requested) = Inr (Some ''aa'')"
    by (simp add: st_defs ctl0_simps hash160hex_def hexval_def hexdigit_def)
  show ?thesis
    using set_commit_match [OF b c d e f]
    by (auto simp: st_defs order_active_def)
qed

lemma set_commit_accepts:
  "bad_signature_count ctl rtx = 1 \<Longrightarrow> h2b script_hex = Some scr \<Longrightarrow>
   hash160hex_field ctl (spend_secret st) = Inr (get_commit_spend_secret_hash ctl scr) \<Longrightarrow>
   wif2pubkey_field ctl (payee_wif st) = Inr (get_commit_payee_pubkey ctl scr) \<Longrightarrow>
   find_request ctl (get_commit_revoke_secret_hash ctl scr) (commits_requested st)
     = Inr (Some secret) \<Longrightarrow>
   set_commit ctl rtx script_hex st =
     (Inr (Some (get_transferred_amount ctl (accept_commit ctl rtx script_hex secret st))),
      accept_commit ctl rtx script_hex secret st)"
  by (simp add: set_commit_def validate_payer_commit_def validate_commit_secret_hash_def
      validate_commit_payee_pubkey_def Let_def)




section \<open>Strictly increasing commits\<close>

lemma setup_deposit_state:
  "setup_payee ctl wif secret st0 = (Inr keys, sta) \<Longrightarrow>
   set_deposit ctl drtx dscript sta = (Inr (), st) \<Longrightarrow>
   keys = (wif2pubkey ctl wif, b2h (hash160 ctl secret)) \<and>
   commits_requested st = [] \<and> commits_active st = [] \<and>
   spend_secret st = Some (b2h secret) \<and> payee_wif st = Some wif"
  by (auto simp: setup_payee_def Let_def clear_def set_deposit_def
      split: sum.splits option.splits)

lemma request_commit_result:
  "request_commit ctl q rnd st = (Inr out, st') \<Longrightarrow>
   out = (q, b2h (hash160 ctl rnd)) \<and>
   st' = st\<lparr>commits_requested := commits_requested st @ [b2h rnd]\<rparr>"
  by (auto simp: request_commit_def Let_def hash160hex_b2h split: sum.splits)

lemma request_all_result:
  "request_all ctl reqs st = (Inr outs, st1) \<Longrightarrow>
   outs = map (\<lambda>r. (fst r, b2h (hash160 ctl (snd r)))) reqs \<and>
   st1 = st\<lparr>commits_requested := commits_requested st @ map (\<lambda>r. b2h (snd r)) reqs\<rparr>"
proof (induction reqs arbitrary: st outs st1)
  case Nil
  then show ?case by simp
next
  case (Cons r reqs)
  obtain q rnd where r: "r = (q, rnd)" by (cases r)
  obtain res st' where s: "request_commit ctl q rnd st = (res, st')"
    by (cases "request_commit ctl q rnd st")
  obtain out where res: "res = Inr out"
    using Cons.prems r s by (cases res) simp_all
  obtain res2 st'' where t: "request_all ctl reqs st' = (res2, st'')"
    by (cases "request_all ctl reqs st'")
  obtain outs' where res2: "res2 = Inr outs'"
    using Cons.prems r s res t by (cases res2) simp_all
  have o: "outs = out # outs'" and st1: "st1 = st''"
    using Cons.prems r s res t res2 by simp_all
  note one = request_commit_result [OF s [unfolded res]]
  note rest = Cons.IH [OF t [unfolded res2]]
  show ?case using one rest o st1 r by simp
qed

lemma find_request_finds:
  "\<forall>s\<in>set ss. \<exists>h'. hash160hex ctl s = Inr h' \<Longrightarrow>
   \<exists>s\<in>set ss. hash160hex ctl s = Inr h \<Longrightarrow>
   \<exists>s. find_request ctl h ss = Inr (Some s)"
  by (induction ss) (auto split: sum.splits)

lemma mset_map_remove1:
  "s \<in> set ss \<Longrightarrow> add_mset (f s) (mset (map f (remove1 s ss))) = mset (map f ss)"
  by (induction ss) auto

lemma commit_all_Cons:
  "commit_all ctl ((rtx, sh) # calls) st =
     (fst (set_commit ctl rtx sh st) # fst (commit_all ctl calls (snd (set_commit ctl rtx sh st))),
      snd (commit_all ctl calls (snd (set_commit ctl rtx sh st))))"
  by (simp split: prod.splits)

lemma commit_all_matching:
  "list_all2 (matching_commit ctl keys) outs calls \<Longrightarrow>
   hash160hex_field ctl (spend_secret st) = Inr (snd keys) \<Longrightarrow>
   wif2pubkey_field ctl (payee_wif st) = Inr (fst keys) \<Longrightarrow>
   mset (map (hash160hex ctl) (commits_requested st)) = mset (map (\<lambda>p. Inr (snd p)) outs) \<Longrightarrow>
   sorted_wrt (<) (map (quantity_of ctl) (commits_active st) @ map fst outs) \<Longrightarrow>
   fst (commit_all ctl calls st) = map (\<lambda>p. Inr (Some (fst p))) outs \<and>
   map (quantity_of ctl) (commits_active (snd (commit_all ctl calls st))) =
     map (quantity_of ctl) (commits_active st) @ map fst outs \<and>
   commits_requested (snd (commit_all ctl calls st)) = []"
proof (induction arbitrary: st rule: list_all2_induct)
  case Nil
  then show ?case by simp
next
  case (Cons out outs call calls)
  obtain rtx sh where call: "call = (rtx, sh)" by (cases call)
  from Cons.hyps(1) call obtain scr where b: "bad_signature_count ctl rtx = 1"
    and q: "get_quantity ctl rtx = fst out" and c: "h2b sh = Some scr"
    and ssh: "get_commit_spend_secret_hash ctl scr = snd keys"
    and pk: "get_commit_payee_pubkey ctl scr = fst keys"
    and rh: "get_commit_revoke_secret_hash ctl scr = snd out"
    by (auto simp: matching_commit_def split: option.splits)
  let ?req = "commits_requested st"
  have ms: "mset (map (hash160hex ctl) ?req) = add_mset (Inr (snd out)) (mset (map (\<lambda>p. Inr (snd p)) outs))"
    using Cons.prems(3) by simp
  have sets: "set (map (hash160hex ctl) ?req) = set (map (\<lambda>p. Inr (snd p)) (out # outs))"
    using Cons.prems(3) by (rule mset_eq_setD)
  have allInr: "\<forall>s\<in>set ?req. \<exists>h'. hash160hex ctl s = Inr h'"
  proof
    fix s assume "s \<in> set ?req"
    then have "hash160hex ctl s \<in> set (map (\<lambda>p. Inr (snd p)) (out # outs))"
      using sets by auto
    then show "\<exists>h'. hash160hex ctl s = Inr h'" by auto
  qed
  have ex: "\<exists>s\<in>set ?req. hash160hex ctl s = Inr (snd out)"
  proof -
    have "Inr (snd out) \<in> set (map (hash160hex ctl) ?req)" using sets by simp
    then show ?thesis by auto
  qed
  obtain secret where f0: "find_request ctl (snd out) ?req = Inr (Some secret)"
    using find_request_finds [OF allInr ex] by blast
  have mem: "secret \<in> set ?req" and hs: "hash160hex ctl secret = Inr (snd out)"
    using find_request_Some [OF f0] by simp_all
  have d: "hash160hex_field ctl (spend_secret st) = Inr (get_commit_spend_secret_hash ctl scr)"
    using Cons.prems(1) ssh by simp
  have e: "wif2pubkey_field ctl (payee_wif st) = Inr (get_commit_payee_pubkey ctl scr)"
    using Cons.prems(2) pk by simp
  have f: "find_request ctl (get_commit_revoke_secret_hash ctl scr) ?req = Inr (Some secret)"
    using f0 rh by simp
  let ?new = "\<lparr>rawtx = rtx, script = sh, revoke_secret = secret\<rparr>"
  let ?st' = "accept_commit ctl rtx sh secret st"
  note run = set_commit_accepts [OF b c d e f]
  have strict: "sorted_wrt (<) (map (quantity_of ctl) (commits_active st))"
    and below: "\<forall>x\<in>set (commits_active st). quantity_of ctl x < fst out"
    using Cons.prems(4) by (auto simp: sorted_wrt_append)
  have "sorted (map (quantity_of ctl) (commits_active st))"
    using strict by (rule strict_sorted_imp_sorted)
  then have same: "sort_key (quantity_of ctl) (commits_active st) = commits_active st"
    by (rule sort_key_id_if_sorted)
  have act: "commits_active ?st' = commits_active st @ [?new]"
    using accept_commit_active [of ctl rtx sh secret st] same by simp
  have qnew: "quantity_of ctl ?new = fst out" using q by (simp add: quantity_of_def)
  have le: "\<forall>x\<in>set (commits_active st). quantity_of ctl x \<le> quantity_of ctl ?new"
    using below qnew by (simp add: less_imp_le)
  have amt: "get_transferred_amount ctl ?st' = fst out"
    using get_transferred_amount_snoc [OF act le] qnew by simp
  have req': "commits_requested ?st' = remove1 secret ?req"
    by (simp add: accept_commit_def order_active_def Let_def)
  have frame: "spend_secret ?st' = spend_secret st" "payee_wif ?st' = payee_wif st"
    by (simp_all add: accept_commit_def order_active_def Let_def)
  have ms': "mset (map (hash160hex ctl) (commits_requested ?st')) = mset (map (\<lambda>p. Inr (snd p)) outs)"
    using mset_map_remove1 [OF mem, of "hash160hex ctl"] ms hs by (simp add: req')
  have srt': "sorted_wrt (<) (map (quantity_of ctl) (commits_active ?st') @ map fst outs)"
    using Cons.prems(4) by (simp add: act qnew)
  note ih = Cons.IH [of ?st', OF _ _ ms' srt', unfolded frame, OF Cons.prems(1) Cons.prems(2)]
  show ?case
    unfolding call commit_all_Cons using ih by (simp add: run amt act qnew)
qed

text \<open>
  C6. A channel is set up and its deposit is accepted;
  \<open>request_commit(q1) \<dots> request_commit(qn)\<close> succeed and return
  \<open>(q1, h1) \<dots> (qn, hn)\<close>; then \<open>set_commit\<close> is called \<open>n\<close> times, the \<open>i\<close>-th
  call with a transaction of quantity \<open>qi\<close> that has one bad signature slot and
  with a script that carries the public key and the spend secret hash that
  \<open>setup\<close> returned and the revoke secret hash \<open>hi\<close> that the \<open>i\<close>-th request
  returned. If \<open>q1 < \<dots> < qn\<close>, then the calls return \<open>q1, \<dots>, qn\<close>, every request
  is used up, and at the end \<open>commits_active\<close> holds commits of the quantities
  \<open>q1, \<dots>, qn\<close> in this order, so it is ordered ascending by quantity, and the
  transferred amount is \<open>qn\<close> (zero when there was no request at all).
\<close>

theorem increasing_commits_ordered:
  "setup_payee ctl wif secret st0 = (Inr keys, sta) \<Longrightarrow>
   set_deposit ctl drtx dscript sta = (Inr (), st) \<Longrightarrow>
   request_all ctl reqs st = (Inr outs, st1) \<Longrightarrow>
   list_all2 (matching_commit ctl keys) outs calls \<Longrightarrow>
   sorted_wrt (<) (map fst reqs) \<Longrightarrow>
   fst (commit_all ctl calls st1) = map (\<lambda>r. Inr (Some (fst r))) reqs \<and>
   map (quantity_of ctl) (commits_active (snd (commit_all ctl calls st1))) = map fst reqs \<and>
   sorted (map (quantity_of ctl) (commits_active (snd (commit_all ctl calls st1)))) \<and>
   get_transferred_amount ctl (snd (commit_all ctl calls st1)) =
     (if reqs = [] then 0 else fst (last reqs)) \<and>
   commits_requested (snd (commit_all ctl calls st1)) = []"
proof -
  assume su: "setup_payee ctl wif secret st0 = (Inr keys, sta)"
    and dep: "set_deposit ctl drtx dscript sta = (Inr (), st)"
    and rq: "request_all ctl reqs st = (Inr outs, st1)"
    and m: "list_all2 (matching_commit ctl keys) outs calls"
    and inc: "sorted_wrt (<) (map fst reqs)"
  note s0 = setup_deposit_state [OF su dep]
  note r0 = request_all_result [OF rq]
  have outs_q: "map fst outs = map fst reqs" using r0 by (simp add: comp_def)
  have st1: "st1 = st\<lparr>commits_requested := commits_requested st @ map (\<lambda>r. b2h (snd r)) reqs\<rparr>"
    using r0 by blast
  have outs_eq: "outs = map (\<lambda>r. (fst r, b2h (hash160 ctl (snd r)))) reqs"
    using r0 by blast
  have k: "keys = (wif2pubkey ctl wif, b2h (hash160 ctl secret))"
    and req0: "commits_requested st = []" and act0: "commits_active st = []"
    and sec0: "spend_secret st = Some (b2h secret)" and wif0: "payee_wif st = Some wif"
    using s0 by blast+
  have req1: "commits_requested st1 = map (\<lambda>r. b2h (snd r)) reqs"
    by (simp add: st1 req0)
  have act1: "commits_active st1 = []" by (simp add: st1 act0)
  have sec1: "spend_secret st1 = Some (b2h secret)" by (simp add: st1 sec0)
  have wif1: "payee_wif st1 = Some wif" by (simp add: st1 wif0)
  have d: "hash160hex_field ctl (spend_secret st1) = Inr (snd keys)"
    by (simp add: k sec1 hash160hex_field_def hash160hex_b2h)
  have e: "wif2pubkey_field ctl (payee_wif st1) = Inr (fst keys)"
    by (simp add: k wif1 wif2pubkey_field_def)
  have ms: "mset (map (hash160hex ctl) (commits_requested st1)) = mset (map (\<lambda>p. Inr (snd p)) outs)"
    by (simp add: outs_eq req1 comp_def hash160hex_b2h)
  have srt: "sorted_wrt (<) (map (quantity_of ctl) (commits_active st1) @ map fst outs)"
    using inc by (simp add: act1 outs_q)
  note fin = commit_all_matching [OF m d e ms srt]
  let ?st2 = "snd (commit_all ctl calls st1)"
  have res: "fst (commit_all ctl calls st1) = map (\<lambda>r. Inr (Some (fst r))) reqs"
  proof -
    have "map (\<lambda>p. Inr (Some (fst p)) :: error + int option) outs =
          map (\<lambda>q. Inr (Some q)) (map fst outs)" by (simp add: comp_def)
    also have "\<dots> = map (\<lambda>q. Inr (Some q)) (map fst reqs)" using outs_q by simp
    also have "\<dots> = map (\<lambda>r. Inr (Some (fst r))) reqs" by (simp add: comp_def)
    finally show ?thesis using fin by simp
  qed
  have qs: "map (quantity_of ctl) (commits_active ?st2) = map fst reqs"
    using fin by (simp add: act1 outs_q)
  have sorted2: "sorted (map (quantity_of ctl) (commits_active ?st2))"
    using inc qs strict_sorted_imp_sorted by metis
  have amt: "get_transferred_amount ctl ?st2 = (if reqs = [] then 0 else fst (last reqs))"
  proof (cases "reqs = []")
    case True
    then have "commits_active ?st2 = []" using qs by simp
    then show ?thesis using True by (simp add: get_transferred_amount_def)
  next
    case False
    then have ne: "commits_active ?st2 \<noteq> []" using qs by auto
    have same: "sort_key (quantity_of ctl) (commits_active ?st2) = commits_active ?st2"
      using sorted2 by (rule sort_key_id_if_sorted)
    have "get_transferred_amount ctl ?st2 = quantity_of ctl (last (commits_active ?st2))"
      using get_transferred_amount_nonempty [OF ne, of ctl] same by simp
    also have "\<dots> = last (map (quantity_of ctl) (commits_active ?st2))"
      using ne by (simp add: last_map)
    also have "\<dots> = fst (last reqs)" using False by (simp add: qs last_map)
    finally show ?thesis using False by simp
  qed
  show ?thesis using res qs sorted2 amt fin by simp
qed

lemma setup_example:
  "setup_payee ctl0 ''wif'' [0] st_empty = (Inr (''pub'', ''00''), st_unopened)"
  by (simp add: setup_payee_def Let_def clear_def st_defs ctl0_simps hexdigit_def)

lemma set_deposit_example:
  "set_deposit ctl0 ''tx0'' ''00'' st_unopened = (Inr (), st_deposited)"
  by (simp add: set_deposit_def assert_unopen_state_def validate_payer_deposit_def
      validate_deposit_spend_secret_hash_def validate_deposit_payee_pubkey_def
      hash160hex_field_def wif2pubkey_field_def hash160hex_def hexval_def hexdigit_def
      Let_def st_defs ctl0_def)

lemma request_all_example:
  "request_all ctl0 [(3, [170]), (4, [187])] st_deposited =
     (Inr [(3, ''aa''), (4, ''bb'')], st_requested)"
  by (simp add: request_commit_def validate_transfer_quantity_def get_transferred_amount_def
      hash160hex_def hexval_def hexdigit_def Let_def st_defs ctl0_simps)

lemma matching_commit_example:
  "list_all2 (matching_commit ctl0 (''pub'', ''00'')) [(3, ''aa''), (4, ''bb'')]
     [(''tx1'', ''00aa''), (''tx22'', ''00bb'')]"
  by (simp add: matching_commit_def hexval_def hexdigit_def ctl0_simps)

theorem increasing_commits_ordered_witness:
  "fst (commit_all ctl0 [(''tx1'', ''00aa''), (''tx22'', ''00bb'')] st_requested) =
     [Inr (Some 3), Inr (Some 4)] \<and>
   map (quantity_of ctl0)
     (commits_active (snd (commit_all ctl0 [(''tx1'', ''00aa''), (''tx22'', ''00bb'')] st_requested)))
     = [3, 4] \<and>
   get_transferred_amount ctl0
     (snd (commit_all ctl0 [(''tx1'', ''00aa''), (''tx22'', ''00bb'')] st_requested)) = 4 \<and>
   commits_requested
     (snd (commit_all ctl0 [(''tx1'', ''00aa''), (''tx22'', ''00bb'')] st_requested)) = []"
proof -
  have inc: "sorted_wrt (<) (map fst [(3::int, [170::byte]), (4, [187])])" by simp
  show ?thesis
    using increasing_commits_ordered
      [OF setup_example set_deposit_example request_all_example matching_commit_example inc]
    by simp
qed

section \<open>get_payout_recoverable\<close>

lemma utxo_scan_set:
  "set (utxo_scan ctl scr d us scripts) =
     set scripts \<union> (if \<exists>u\<in>set us. d \<le> confirms ctl (txid u) then {scr} else {})"
  by (induction us arbitrary: scripts) auto

lemma payout_scan_set:
  "payout_scan ctl cs scripts = Inr out \<Longrightarrow>
   set out = set scripts \<union> {s. \<exists>c\<in>set cs. recoverable ctl c s}"
proof (induction cs arbitrary: scripts)
  case Nil
  then show ?case by simp
next
  case (Cons c cs)
  from Cons.prems obtain scr where scr: "h2b (script c) = Some scr"
    by (cases "h2b (script c)") simp_all
  let ?acc = "if commit_spent ctl c then scripts
              else if can_spend_from_address ctl (script2address ctl scr)
              then utxo_scan ctl scr (get_commit_delay_time ctl scr)
                     (retrieve_utxos ctl [script2address ctl scr]) scripts
              else scripts"
  have run: "payout_scan ctl cs ?acc = Inr out"
    using Cons.prems scr by (simp add: Let_def split: if_splits)
  have acc: "set ?acc = set scripts \<union> {s. recoverable ctl c s}"
    using scr by (auto simp: utxo_scan_set recoverable_def)
  show ?case using Cons.IH [OF run] acc by auto
qed

lemma payout_scan_skips_spent:
  "payout_scan ctl cs scripts = Inr out \<Longrightarrow>
   payout_scan ctl (filter (\<lambda>c. \<not> commit_spent ctl c) cs) scripts = Inr out"
proof (induction cs arbitrary: scripts)
  case Nil
  then show ?case by simp
next
  case (Cons c cs)
  from Cons.prems obtain scr where scr: "h2b (script c) = Some scr"
    by (cases "h2b (script c)") simp_all
  show ?case
    using Cons.prems Cons.IH scr by (simp add: Let_def split: if_splits)
qed

lemma payout_scan_returns:
  "\<forall>c\<in>set cs. h2b (script c) \<noteq> None \<Longrightarrow> \<exists>out. payout_scan ctl cs scripts = Inr out"
  by (induction cs arbitrary: scripts) (auto simp: Let_def)

text \<open>
  C7. When \<open>get_payout_recoverable\<close> returns, the channel is unchanged, and a
  script is among those collected exactly when it is the script of a commit,
  active or revoked, that is not reported spent, whose address is reported
  spendable, and for which some output at that address has a confirmation depth
  of at least the script's delay time. Commits reported spent contribute nothing:
  the scan over the commits without them collects the same list.
\<close>

theorem payout_recoverable_only_when:
  "get_payout_recoverable ctl st = (Inr scripts, st') \<Longrightarrow>
   st' = st \<and>
   (\<forall>s. s \<in> set scripts \<longleftrightarrow>
      (\<exists>c\<in>set (commits_active st @ commits_revoked st).
         h2b (script c) = Some s \<and> \<not> commit_spent ctl c \<and>
         can_spend_from_address ctl (script2address ctl s) \<and>
         (\<exists>u\<in>set (retrieve_utxos ctl [script2address ctl s]).
            get_commit_delay_time ctl s \<le> confirms ctl (txid u)))) \<and>
   payout_scan ctl (filter (\<lambda>c. \<not> commit_spent ctl c) (commits_active st @ commits_revoked st)) []
     = Inr scripts"
proof -
  assume run: "get_payout_recoverable ctl st = (Inr scripts, st')"
  then have scan: "payout_scan ctl (commits_active st @ commits_revoked st) [] = Inr scripts"
    and st: "st' = st"
    by (auto simp: get_payout_recoverable_def)
  have "set scripts = {s. \<exists>c\<in>set (commits_active st @ commits_revoked st). recoverable ctl c s}"
    using payout_scan_set [OF scan] by simp
  then have mem: "\<forall>s. s \<in> set scripts \<longleftrightarrow>
      (\<exists>c\<in>set (commits_active st @ commits_revoked st).
         h2b (script c) = Some s \<and> \<not> commit_spent ctl c \<and>
         can_spend_from_address ctl (script2address ctl s) \<and>
         (\<exists>u\<in>set (retrieve_utxos ctl [script2address ctl s]).
            get_commit_delay_time ctl s \<le> confirms ctl (txid u)))"
    unfolding recoverable_def by blast
  show ?thesis using st mem payout_scan_skips_spent [OF scan] by blast
qed

lemma get_payout_recoverable_example:
  "get_payout_recoverable ctl0 st_commits = (Inr [[0, 187], [0, 170]], st_commits)"
  by (simp add: get_payout_recoverable_def st_commits_def st_deposited_def st_unopened_def
      st_empty_def ctl0_def hexval_def hexdigit_def Let_def)

theorem payout_recoverable_only_when_witness:
  "([0, 204] :: bytes) \<notin> set [[0, 187], [0, 170]] \<and>
   ([0, 221, 0, 0, 0, 0, 0] :: bytes) \<notin> set [[0, 187], [0, 170]] \<and>
   payout_scan ctl0
     (filter (\<lambda>c. \<not> commit_spent ctl0 c) (commits_active st_commits @ commits_revoked st_commits)) []
     = Inr [[0, 187], [0, 170]]"
  using payout_recoverable_only_when [OF get_payout_recoverable_example] by simp


section \<open>revoke_until\<close>











end
